theory Spec2Isabelle
  imports Complex_Main "HOL-Library.Sublist" "HOL-Library.Multiset"
begin

section \<open>Python values, dictionaries and errors\<close>

text \<open>
  The client of \<^verbatim>\<open>azure_openai_client.py\<close> works on Python strings, on
  dictionaries from strings to strings, and on the objects of two SDKs. A Python
  \<^verbatim>\<open>str\<close> is a \<^typ>\<open>string\<close>; a value that may also be \<^verbatim>\<open>None\<close> (what
  \<^verbatim>\<open>os.getenv\<close> and \<^verbatim>\<open>dict.get\<close> return) is a \<^typ>\<open>string option\<close>; a dictionary
  is a map from keys to such values. Every \<^verbatim>\<open>raise\<close> is a value \<open>Inl e\<close> of a sum.
\<close>

datatype error =
    ValueError string
  | KeyError string
  | MissingVariables "string list"
  | Unmodelled
  | RequestError string

type_synonym pyval = "string option"

type_synonym pydict = "string \<rightharpoonup> pyval"

definition truthy :: "pyval \<Rightarrow> bool" where
  \<comment> \<open>Python truthiness: \<^verbatim>\<open>None\<close> and the empty string are false.\<close>
  "truthy v = (case v of None \<Rightarrow> False | Some s \<Rightarrow> s \<noteq> [])"

definition dict_of :: "(string \<times> pyval) list \<Rightarrow> pydict" where
  \<comment> \<open>A dictionary display \<^verbatim>\<open>{k1: v1, k2: v2, ...}\<close>: a later entry overrides an earlier one.\<close>
  "dict_of es = map_of (rev es)"

definition dict_get :: "pydict \<Rightarrow> string \<Rightarrow> pyval" where
  \<comment> \<open>\<^verbatim>\<open>d.get(k)\<close>: \<^verbatim>\<open>None\<close> for an absent key.\<close>
  "dict_get d k = (case d k of None \<Rightarrow> None | Some v \<Rightarrow> v)"

definition dict_get_default :: "pydict \<Rightarrow> string \<Rightarrow> string \<Rightarrow> pyval" where
  \<comment> \<open>\<^verbatim>\<open>d.get(k, default)\<close>: the default only for an absent key.\<close>
  "dict_get_default d k dflt = (case d k of None \<Rightarrow> Some dflt | Some v \<Rightarrow> v)"

definition dict_item :: "pydict \<Rightarrow> string \<Rightarrow> error + pyval" where
  \<comment> \<open>\<^verbatim>\<open>d[k]\<close>: raises \<^verbatim>\<open>KeyError\<close> for an absent key.\<close>
  "dict_item d k = (case d k of None \<Rightarrow> Inl (KeyError k) | Some v \<Rightarrow> Inr v)"

definition repr_str :: "string \<Rightarrow> string" where
  \<comment> \<open>\<^verbatim>\<open>repr\<close> of a string of letters and underscores (the only strings it is applied
      to here): the text between single quotes.\<close>
  "repr_str s = [CHR 0x27] @ s @ [CHR 0x27]"

fun join :: "string \<Rightarrow> string list \<Rightarrow> string" where
  "join sep [] = []"
| "join sep [x] = x"
| "join sep (x # y # ys) = x @ sep @ join sep (y # ys)"

definition repr_list :: "string list \<Rightarrow> string" where
  \<comment> \<open>What an f-string prints for a list of strings: \<^verbatim>\<open>['a', 'b']\<close>.\<close>
  "repr_list xs = ''['' @ join '', '' (map repr_str xs) @ '']''"


section \<open>Construction of the client\<close>

text \<open>
  The constructor builds two objects of SDKs that are not part of the repository. Such an
  object holds the arguments the source passes to its constructor. An SDK constructor may
  refuse its arguments and raise; which arguments it refuses is not decided by the
  repository, so it is a parameter of the model: for each of the two constructors, the
  error it raises on given arguments, if any. The token provider of the completion client
  is the closure over the credential and the fixed resource scope.
\<close>

datatype credential =
  ClientSecretCredential (tenant_id: pyval) (client_id: pyval) (client_secret: pyval)

record AzureChatOpenAI =
  azure_endpoint :: pyval
  azure_deployment :: pyval
  api_version :: pyval
  azure_ad_token_provider :: "credential \<times> string"
  temperature :: real
  max_tokens :: nat

record AzureOpenAIClient =
  secrets :: pydict
  credential :: credential
  llm :: AzureChatOpenAI

record sdk =
  check_credential :: "credential \<Rightarrow> error option"
  check_llm :: "AzureChatOpenAI \<Rightarrow> error option"

definition new_ClientSecretCredential :: "sdk \<Rightarrow> pyval \<Rightarrow> pyval \<Rightarrow> pyval \<Rightarrow> error + credential" where
  \<comment> \<open>\<^verbatim>\<open>ClientSecretCredential(tenant_id=..., client_id=..., client_secret=...)\<close>\<close>
  "new_ClientSecretCredential k t c s =
     (case check_credential k (ClientSecretCredential t c s) of
        Some e \<Rightarrow> Inl e
      | None \<Rightarrow> Inr (ClientSecretCredential t c s))"

definition new_AzureChatOpenAI :: "sdk \<Rightarrow> AzureChatOpenAI \<Rightarrow> error + AzureChatOpenAI" where
  \<comment> \<open>\<^verbatim>\<open>AzureChatOpenAI(azure_endpoint=..., ...)\<close> on the record of its keyword arguments\<close>
  "new_AzureChatOpenAI k args =
     (case check_llm k args of Some e \<Rightarrow> Inl e | None \<Rightarrow> Inr args)"

definition required_keys :: "string list" where
  "required_keys =
     [''azure_tenant_id'', ''azure_client_id'', ''azure_client_secret'', ''azure_endpoint'']"

definition missing_keys :: "pydict \<Rightarrow> string list" where
  "missing_keys d = filter (\<lambda>key. \<not> truthy (dict_get d key)) required_keys"

definition validate_secrets :: "pydict \<Rightarrow> error + unit" where
  "validate_secrets d =
     (if missing_keys d \<noteq> []
      then Inl (ValueError (''Missing required secrets: '' @ repr_list (missing_keys d)))
      else Inr ())"

definition setup_azure_credentials :: "sdk \<Rightarrow> pydict \<Rightarrow> error + credential" where
  "setup_azure_credentials k d =
     (case dict_item d ''azure_tenant_id'' of Inl e \<Rightarrow> Inl e | Inr t \<Rightarrow>
     (case dict_item d ''azure_client_id'' of Inl e \<Rightarrow> Inl e | Inr c \<Rightarrow>
     (case dict_item d ''azure_client_secret'' of Inl e \<Rightarrow> Inl e | Inr s \<Rightarrow>
        new_ClientSecretCredential k t c s)))"

definition initialize_langchain_client ::
  "sdk \<Rightarrow> pydict \<Rightarrow> credential \<Rightarrow> error + AzureChatOpenAI" where
  "initialize_langchain_client k d cred =
     (case dict_item d ''azure_endpoint'' of Inl e \<Rightarrow> Inl e | Inr ep \<Rightarrow>
        new_AzureChatOpenAI k
           \<lparr> azure_endpoint = ep,
              azure_deployment = dict_get_default d ''azure_deployment_name'' ''gpt-4'',
              api_version = dict_get_default d ''azure_api_version'' ''2024-02-15-preview'',
              azure_ad_token_provider = (cred, ''https://cognitiveservices.azure.com/.default''),
              temperature = 0.1,
              max_tokens = 4000 \<rparr>)"

definition init :: "sdk \<Rightarrow> pydict \<Rightarrow> error + AzureOpenAIClient" where
  \<comment> \<open>\<^verbatim>\<open>AzureOpenAIClient.__init__\<close>\<close>
  "init k d =
     (case validate_secrets d of Inl e \<Rightarrow> Inl e | Inr _ \<Rightarrow>
     (case setup_azure_credentials k d of Inl e \<Rightarrow> Inl e | Inr cred \<Rightarrow>
     (case initialize_langchain_client k d cred of Inl e \<Rightarrow> Inl e | Inr l \<Rightarrow>
        Inr \<lparr> secrets = d, credential = cred, llm = l \<rparr>)))"

definition getenv :: "(string \<rightharpoonup> string) \<Rightarrow> string \<Rightarrow> pyval" where
  \<comment> \<open>\<^verbatim>\<open>os.getenv(k)\<close>\<close>
  "getenv env k = env k"

definition getenv_default :: "(string \<rightharpoonup> string) \<Rightarrow> string \<Rightarrow> string \<Rightarrow> pyval" where
  \<comment> \<open>\<^verbatim>\<open>os.getenv(k, default)\<close>\<close>
  "getenv_default env k dflt = (case env k of None \<Rightarrow> Some dflt | Some v \<Rightarrow> Some v)"

definition env_secrets :: "(string \<rightharpoonup> string) \<Rightarrow> pydict" where
  "env_secrets env = dict_of
     [(''azure_tenant_id'', getenv env ''AZURE_TENANT_ID''),
      (''azure_client_id'', getenv env ''AZURE_CLIENT_ID''),
      (''azure_client_secret'', getenv env ''AZURE_CLIENT_SECRET''),
      (''azure_endpoint'', getenv env ''AZURE_ENDPOINT''),
      (''azure_deployment_name'', getenv_default env ''AZURE_DEPLOYMENT_NAME'' ''gpt-4''),
      (''azure_api_version'', getenv_default env ''AZURE_API_VERSION'' ''2024-02-15-preview'')]"

definition create_client_from_env ::
  "sdk \<Rightarrow> (string \<rightharpoonup> string) \<Rightarrow> error + AzureOpenAIClient" where
  "create_client_from_env k env = init k (env_secrets env)"

definition create_client_from_dict :: "sdk \<Rightarrow> pydict \<Rightarrow> error + AzureOpenAIClient" where
  "create_client_from_dict k d = init k d"


section \<open>Messages, prompt templates and the completion service\<close>

datatype message = SystemMessage (content: string) | HumanMessage (content: string)

text \<open>
  Modelled from the spec: the prompt library's f-string templates
  (\<^verbatim>\<open>HumanMessagePromptTemplate.from_template\<close> and the formatting done by
  \<^verbatim>\<open>ChatPromptTemplate.invoke\<close>), which the client calls and which are not among the
  source files. The spec's words: a template is a string with \<^verbatim>\<open>{name}\<close>-style
  placeholders; the user message is the template with every placeholder substituted from
  the mapping; a placeholder with no entry in the mapping is an error, and nothing is
  sent. The scanner below follows the format-string syntax of Python that the library
  uses: outside a placeholder a doubled brace stands for one brace and a lone brace is
  rejected. Fields with a conversion, a format specification, attribute or index access
  (one of the characters \<^verbatim>\<open>! : . [ ]\<close>), with an empty name or with a name of digits
  only are outside the model: for them the result is \<^const>\<open>Unmodelled\<close>, and no theorem
  below speaks about them.
\<close>

datatype piece = Chr char | Var string

definition single_open :: string where
  "single_open = ''Single '' @ repr_str ''{'' @ '' encountered in format string''"

definition single_close :: string where
  "single_close = ''Single '' @ repr_str ''}'' @ '' encountered in format string''"

definition unexpected_open :: string where
  "unexpected_open = ''unexpected '' @ repr_str ''{'' @ '' in field name''"

definition expected_close :: string where
  "expected_close = ''expected '' @ repr_str ''}'' @ '' before end of string''"

definition isdigit :: "char \<Rightarrow> bool" where
  "isdigit c = (c \<in> set ''0123456789'')"

definition unmodelled_char :: "char \<Rightarrow> bool" where
  "unmodelled_char c = (c \<in> set ''!:.[]'')"

definition unmodelled_name :: "string \<Rightarrow> bool" where
  "unmodelled_name n = (n = [] \<or> list_all isdigit n)"

definition cons_piece :: "piece \<Rightarrow> error + piece list \<Rightarrow> error + piece list" where
  "cons_piece p r = (case r of Inl e \<Rightarrow> Inl e | Inr ps \<Rightarrow> Inr (p # ps))"

text \<open>
  Modelled from the spec: \<^verbatim>\<open>HumanMessagePromptTemplate.from_template\<close> of the
  prompt library, which is not among the source files. It splits a template into its
  characters and its \<^verbatim>\<open>{name}\<close> placeholders.
\<close>

fun from_template :: "string \<Rightarrow> error + piece list"
  and parse_field :: "string \<Rightarrow> string \<Rightarrow> error + piece list" where
  "from_template [] = Inr []"
| "from_template [c] =
     (if c = CHR ''{'' then Inl (ValueError single_open)
      else if c = CHR ''}'' then Inl (ValueError single_close)
      else Inr [Chr c])"
| "from_template (c # d # ds) =
     (if c = CHR ''{'' then
        (if d = CHR ''{'' then cons_piece (Chr c) (from_template ds)
         else parse_field [] (d # ds))
      else if c = CHR ''}'' then
        (if d = CHR ''}'' then cons_piece (Chr c) (from_template ds)
         else Inl (ValueError single_close))
      else cons_piece (Chr c) (from_template (d # ds)))"
| "parse_field acc [] = Inl (ValueError expected_close)"
| "parse_field acc (c # cs) =
     (if c = CHR ''{'' then Inl (ValueError unexpected_open)
      else if unmodelled_char c then Inl Unmodelled
      else if c = CHR ''}'' then
        (if unmodelled_name (rev acc) then Inl Unmodelled
         else cons_piece (Var (rev acc)) (from_template cs))
      else parse_field (c # acc) cs)"

definition input_variables :: "piece list \<Rightarrow> string list" where
  "input_variables ps = remdups (concat (map (\<lambda>p. case p of Chr c \<Rightarrow> [] | Var n \<Rightarrow> [n]) ps))"

definition format_piece :: "(string \<rightharpoonup> string) \<Rightarrow> piece \<Rightarrow> string" where
  "format_piece vars p =
     (case p of Chr c \<Rightarrow> [c] | Var n \<Rightarrow> (case vars n of None \<Rightarrow> [] | Some v \<Rightarrow> v))"

text \<open>
  Modelled from the spec: the formatting of a template by \<^verbatim>\<open>ChatPromptTemplate.invoke\<close>
  of the prompt library, which is not among the source files. A placeholder with no entry
  in the mapping is the missing-variable error (the library's \<^verbatim>\<open>KeyError\<close>, which
  lists the missing names); otherwise every placeholder is replaced by its value.
\<close>

definition format_template :: "piece list \<Rightarrow> (string \<rightharpoonup> string) \<Rightarrow> error + string" where
  "format_template ps vars =
     (let missing = filter (\<lambda>n. vars n = None) (input_variables ps)
      in if missing \<noteq> [] then Inl (MissingVariables missing)
         else Inr (concat (map (format_piece vars) ps)))"

datatype prompt_message = Fixed message | HumanMessagePromptTemplate "piece list"

fun format_messages :: "prompt_message list \<Rightarrow> (string \<rightharpoonup> string) \<Rightarrow> error + message list" where
  "format_messages [] vars = Inr []"
| "format_messages (Fixed m # ps) vars =
     (case format_messages ps vars of Inl e \<Rightarrow> Inl e | Inr ms \<Rightarrow> Inr (m # ms))"
| "format_messages (HumanMessagePromptTemplate t # ps) vars =
     (case format_template t vars of Inl e \<Rightarrow> Inl e | Inr u \<Rightarrow>
     (case format_messages ps vars of Inl e \<Rightarrow> Inl e | Inr ms \<Rightarrow>
        Inr (HumanMessage u # ms)))"

text \<open>
  The outside world of a client: the requests sent so far, and the completion service,
  which answers a request (given the ones before it) with a completion body or with a
  failure that the call propagates. \<open>self\<close> is the client object the methods run on.
\<close>

type_synonym request = "AzureChatOpenAI \<times> message list"

record world =
  self :: AzureOpenAIClient
  sent :: "request list"
  service :: "request list \<Rightarrow> request \<Rightarrow> error + string"

definition llm_invoke :: "AzureChatOpenAI \<Rightarrow> message list \<Rightarrow> world \<Rightarrow> (error + string) \<times> world" where
  "llm_invoke l msgs w = (service w (sent w) (l, msgs), w\<lparr>sent := sent w @ [(l, msgs)]\<rparr>)"

definition invoke ::
  "prompt_message list \<Rightarrow> AzureChatOpenAI \<Rightarrow> (string \<rightharpoonup> string) \<Rightarrow> world \<Rightarrow> (error + string) \<times> world" where
  \<comment> \<open>\<^verbatim>\<open>(prompt | llm).invoke(variables)\<close>\<close>
  "invoke prompt l vars w =
     (case format_messages prompt vars of
        Inl e \<Rightarrow> (Inl e, w)
      | Inr msgs \<Rightarrow> llm_invoke l msgs w)"

definition isspace :: "char \<Rightarrow> bool" where
  \<comment> \<open>The whitespace of \<^verbatim>\<open>str.strip()\<close> among the code points below 256.\<close>
  "isspace c = ((of_char c :: nat) \<in> set [9, 10, 11, 12, 13, 28, 29, 30, 31, 32, 133, 160])"

definition strip :: "string \<Rightarrow> string" where
  "strip s = rev (dropWhile isspace (rev (dropWhile isspace s)))"

definition system_messages :: "pyval \<Rightarrow> prompt_message list" where
  \<comment> \<open>\<^verbatim>\<open>messages = []; if system_message: messages.append(SystemMessage(content=system_message))\<close>\<close>
  "system_messages system_message =
     (case system_message of
        None \<Rightarrow> []
      | Some s \<Rightarrow> if s \<noteq> [] then [] @ [Fixed (SystemMessage s)] else [])"

definition chat :: "string \<Rightarrow> pyval \<Rightarrow> world \<Rightarrow> (error + string) \<times> world" where
  "chat message system_message w =
     (let messages = system_messages system_message in
      case from_template message of
        Inl e \<Rightarrow> (Inl e, w)
      | Inr t \<Rightarrow>
          (let prompt = messages @ [HumanMessagePromptTemplate t] in
           case invoke prompt (llm (self w)) Map.empty w of
             (Inl e, w') \<Rightarrow> (Inl e, w')
           | (Inr body, w') \<Rightarrow> (Inr (strip body), w')))"

definition chat_with_template ::
  "string \<Rightarrow> (string \<rightharpoonup> string) \<Rightarrow> pyval \<Rightarrow> world \<Rightarrow> (error + string) \<times> world" where
  "chat_with_template template variables system_message w =
     (let messages = system_messages system_message in
      case from_template template of
        Inl e \<Rightarrow> (Inl e, w)
      | Inr t \<Rightarrow>
          (let prompt = messages @ [HumanMessagePromptTemplate t] in
           case invoke prompt (llm (self w)) variables w of
             (Inl e, w') \<Rightarrow> (Inl e, w')
           | (Inr body, w') \<Rightarrow> (Inr (strip body), w')))"


section \<open>Templates as the spec describes them\<close>

text \<open>
  The templates the spec speaks of: text without braces, interleaved with placeholders
  \<^verbatim>\<open>{name}\<close>. \<open>render\<close> writes such a template as the string the caller passes.
\<close>

definition plain_char :: "char \<Rightarrow> bool" where
  "plain_char c = (c \<noteq> CHR ''{'' \<and> c \<noteq> CHR ''}'')"

definition name_char :: "char \<Rightarrow> bool" where
  "name_char c = (plain_char c \<and> \<not> unmodelled_char c)"

definition simple_name :: "string \<Rightarrow> bool" where
  "simple_name n = (\<not> unmodelled_name n \<and> list_all name_char n)"

definition plain_piece :: "piece \<Rightarrow> bool" where
  "plain_piece p = (case p of Chr c \<Rightarrow> plain_char c | Var n \<Rightarrow> simple_name n)"

definition well_formed :: "piece list \<Rightarrow> bool" where
  "well_formed ps = list_all plain_piece ps"

definition render_piece :: "piece \<Rightarrow> string" where
  "render_piece p = (case p of Chr c \<Rightarrow> [c] | Var n \<Rightarrow> ''{'' @ n @ ''}'')"

definition render :: "piece list \<Rightarrow> string" where
  "render ps = concat (map render_piece ps)"


definition substitute :: "(string \<Rightarrow> string) \<Rightarrow> piece list \<Rightarrow> string" where
  "substitute val ps = concat (map (\<lambda>p. case p of Chr c \<Rightarrow> [c] | Var n \<Rightarrow> val n) ps)"

definition system_entries :: "pyval \<Rightarrow> message list" where
  \<comment> \<open>The system entry of a request: none for \<^verbatim>\<open>None\<close> and for the empty string.\<close>
  "system_entries system_message =
     (case system_message of None \<Rightarrow> [] | Some s \<Rightarrow> if s = [] then [] else [SystemMessage s])"

definition stripped :: "error + string \<Rightarrow> error + string" where
  "stripped r = (case r of Inl e \<Rightarrow> Inl e | Inr body \<Rightarrow> Inr (strip body))"


section \<open>Example inputs\<close>

definition example_secrets :: pydict where
  "example_secrets = dict_of
     [(''azure_tenant_id'', Some ''tenant''),
      (''azure_client_id'', Some ''app''),
      (''azure_client_secret'', Some ''secret''),
      (''azure_endpoint'', Some ''https://example.openai.azure.com'')]"

definition example_client :: AzureOpenAIClient where
  "example_client =
     \<lparr> secrets = example_secrets,
       credential = ClientSecretCredential (Some ''tenant'') (Some ''app'') (Some ''secret''),
       llm = \<lparr> azure_endpoint = Some ''https://example.openai.azure.com'',
               azure_deployment = Some ''gpt-4'',
               api_version = Some ''2024-02-15-preview'',
               azure_ad_token_provider =
                 (ClientSecretCredential (Some ''tenant'') (Some ''app'') (Some ''secret''),
                  ''https://cognitiveservices.azure.com/.default''),
               temperature = 0.1,
               max_tokens = 4000 \<rparr> \<rparr>"

definition valid_tenant_char :: "char \<Rightarrow> bool" where
  "valid_tenant_char c =
     (c \<in> set ''abcdefghijklmnopqrstuvwxyzABCDEFGHIJKLMNOPQRSTUVWXYZ0123456789-.'')"

definition tenant_checking_sdk :: sdk where
  \<comment> \<open>An SDK whose credential constructor refuses a tenant id that has a character other
      than a letter, a digit, \<^verbatim>\<open>-\<close> or \<^verbatim>\<open>.\<close>, as the constructor of the Azure identity
      library does (its message is longer), and whose completion client accepts every
      argument.\<close>
  "tenant_checking_sdk =
     \<lparr> check_credential =
         (\<lambda>cred. case tenant_id cred of
                    None \<Rightarrow> Some (ValueError ''Invalid tenant ID provided'')
                  | Some t \<Rightarrow>
                      if t \<noteq> [] \<and> list_all valid_tenant_char t then None
                      else Some (ValueError ''Invalid tenant ID provided'')),
       check_llm = (\<lambda>args. None) \<rparr>"

definition spaced_tenant_secrets :: pydict where
  "spaced_tenant_secrets = dict_of
     [(''azure_tenant_id'', Some ''my tenant''),
      (''azure_client_id'', Some ''app''),
      (''azure_client_secret'', Some ''secret''),
      (''azure_endpoint'', Some ''https://example.openai.azure.com'')]"

definition hello_name :: "piece list" where
  "hello_name = map Chr ''Hello '' @ [Var ''name'']"

definition partial_secrets :: pydict where
  "partial_secrets = dict_of
     [(''azure_endpoint'', Some ''''),
      (''azure_tenant_id'', Some ''tenant''),
      (''azure_client_secret'', None)]"

definition shuffled_secrets :: "(string \<times> pyval) list" where
  "shuffled_secrets =
     [(''azure_client_secret'', None),
      (''azure_tenant_id'', Some ''tenant''),
      (''azure_endpoint'', Some '''')]"

definition example_env :: "string \<rightharpoonup> string" where
  "example_env = map_of
     [(''AZURE_TENANT_ID'', ''tenant''),
      (''AZURE_CLIENT_ID'', ''app''),
      (''AZURE_CLIENT_SECRET'', ''secret''),
      (''AZURE_ENDPOINT'', ''https://example.openai.azure.com'')]"

definition flaky_service :: "request list \<Rightarrow> request \<Rightarrow> error + string" where
  \<comment> \<open>A service whose first request fails and whose later ones are answered.\<close>
  "flaky_service history req =
     (if history = [] then Inl (RequestError ''timeout'') else Inr ''  Hi there  \<newline>'')"

definition steady_service :: "request list \<Rightarrow> request \<Rightarrow> error + string" where
  "steady_service history req = Inr ''  Hi there  \<newline>''"

definition example_world :: world where
  "example_world = \<lparr> self = example_client, sent = [], service = steady_service \<rparr>"

definition flaky_world :: world where
  "flaky_world = \<lparr> self = example_client, sent = [], service = flaky_service \<rparr>"


section \<open>Parsing a rendered template\<close>

lemma from_template_plain:
  "plain_char c \<Longrightarrow> from_template (c # s) = cons_piece (Chr c) (from_template s)"
  by (cases s) (simp_all add: plain_char_def cons_piece_def)

lemma parse_field_name:
  "list_all name_char n \<Longrightarrow>
   parse_field acc (n @ CHR ''}'' # s) =
     (if unmodelled_name (rev acc @ n) then Inl Unmodelled
      else cons_piece (Var (rev acc @ n)) (from_template s))"
proof (induction n arbitrary: acc)
  case Nil
  then show ?case by (simp add: unmodelled_char_def)
next
  case (Cons c n)
  then show ?case by (simp add: name_char_def plain_char_def)
qed

lemma from_template_field:
  assumes "simple_name n"
  shows "from_template (CHR ''{'' # n @ CHR ''}'' # s) = cons_piece (Var n) (from_template s)"
proof -
  from assms obtain d ds where n: "n = d # ds"
    by (cases n) (auto simp: simple_name_def unmodelled_name_def)
  from assms have nc: "list_all name_char n" and um: "\<not> unmodelled_name n"
    by (simp_all add: simple_name_def)
  from nc n have "d \<noteq> CHR ''{''"
    by (simp add: name_char_def plain_char_def)
  then have "from_template (CHR ''{'' # n @ CHR ''}'' # s) = parse_field [] (n @ CHR ''}'' # s)"
    by (simp add: n)
  also have "\<dots> = cons_piece (Var n) (from_template s)"
    using parse_field_name [OF nc, of "[]" s] um by simp
  finally show ?thesis .
qed

lemma from_template_render_append:
  "well_formed ps \<Longrightarrow>
   from_template (render ps @ s) = (case from_template s of Inl e \<Rightarrow> Inl e | Inr qs \<Rightarrow> Inr (ps @ qs))"
proof (induction ps)
  case Nil
  then show ?case by (simp add: render_def split: sum.splits)
next
  case (Cons p ps)
  then have wf: "well_formed ps" and pp: "plain_piece p"
    by (simp_all add: well_formed_def)
  have unfold: "\<And>q. render (q # ps) @ s = render_piece q @ (render ps @ s)"
    by (simp add: render_def)
  show ?case
  proof (cases p)
    case (Chr c)
    with pp have "plain_char c" by (simp add: plain_piece_def)
    then show ?thesis
      using Cons.IH [OF wf] Chr
      by (simp add: unfold render_piece_def from_template_plain cons_piece_def split: sum.splits)
  next
    case (Var n)
    with pp have "simple_name n" by (simp add: plain_piece_def)
    then show ?thesis
      using Cons.IH [OF wf] Var
      by (simp add: unfold render_piece_def from_template_field cons_piece_def split: sum.splits)
  qed
qed

lemma from_template_render: "well_formed ps \<Longrightarrow> from_template (render ps) = Inr ps"
  using from_template_render_append [of ps "[]"] by simp

lemma chat_is_template_call: "chat m s w = chat_with_template m Map.empty s w"
  by (simp add: chat_def chat_with_template_def)


section \<open>What a call does\<close>

lemma format_messages_prompt:
  "format_messages (system_messages s @ [HumanMessagePromptTemplate t]) vars =
     (case format_template t vars of
        Inl e \<Rightarrow> Inl e
      | Inr u \<Rightarrow> Inr (system_entries s @ [HumanMessage u]))"
  by (simp add: system_messages_def system_entries_def split: option.splits sum.splits)

lemma chat_with_template_parse_error:
  "from_template t = Inl e \<Longrightarrow> chat_with_template t vars s w = (Inl e, w)"
  by (simp add: chat_with_template_def)

lemma chat_with_template_format_error:
  "from_template t = Inr ps \<Longrightarrow> format_template ps vars = Inl e \<Longrightarrow>
   chat_with_template t vars s w = (Inl e, w)"
  by (simp add: chat_with_template_def invoke_def format_messages_prompt)

lemma chat_with_template_sends:
  "from_template t = Inr ps \<Longrightarrow> format_template ps vars = Inr u \<Longrightarrow>
   chat_with_template t vars s w =
     (stripped (service w (sent w) (llm (self w), system_entries s @ [HumanMessage u])),
      w\<lparr>sent := sent w @ [(llm (self w), system_entries s @ [HumanMessage u])]\<rparr>)"
  by (simp add: chat_with_template_def invoke_def format_messages_prompt llm_invoke_def
      stripped_def split: sum.splits)

lemma chat_with_template_cases:
  obtains (parse_error) e where "from_template t = Inl e" "chat_with_template t vars s w = (Inl e, w)"
  | (format_error) ps e where "from_template t = Inr ps" "format_template ps vars = Inl e"
      "chat_with_template t vars s w = (Inl e, w)"
  | (sends) ps u where "from_template t = Inr ps" "format_template ps vars = Inr u"
      "chat_with_template t vars s w =
         (stripped (service w (sent w) (llm (self w), system_entries s @ [HumanMessage u])),
          w\<lparr>sent := sent w @ [(llm (self w), system_entries s @ [HumanMessage u])]\<rparr>)"
proof (cases "from_template t")
  case (Inl e)
  then show ?thesis using parse_error chat_with_template_parse_error by blast
next
  case (Inr ps)
  show ?thesis
  proof (cases "format_template ps vars")
    case (Inl e)
    then show ?thesis using format_error Inr chat_with_template_format_error by blast
  next
    case Inr2: (Inr u)
    then show ?thesis using sends Inr chat_with_template_sends by blast
  qed
qed

lemma chat_with_template_frame:
  "self (snd (chat_with_template t vars s w)) = self w \<and>
   service (snd (chat_with_template t vars s w)) = service w"
  by (cases rule: chat_with_template_cases [of t vars s w]) simp_all

lemma strip_no_leading: "takeWhile isspace (strip body) = []"
proof -
  define r where "r = dropWhile isspace body"
  have s: "strip body = rev (dropWhile isspace (rev r))"
    by (simp add: strip_def r_def)
  show ?thesis
  proof (cases "strip body")
    case Nil
    then show ?thesis by simp
  next
    case (Cons c cs)
    then have ne: "dropWhile isspace (rev r) \<noteq> []" using s by auto
    then have rne: "r \<noteq> []" by auto
    have "hd (strip body) = last (dropWhile isspace (rev r))"
      using ne s by (simp add: hd_rev)
    also have "\<dots> = last (rev r)"
      using ne by (metis last_appendR takeWhile_dropWhile_id)
    also have "\<dots> = hd r" using rne by (simp add: last_rev)
    finally have "hd (strip body) = hd r" .
    moreover have "\<not> isspace (hd r)"
      using rne unfolding r_def by (rule hd_dropWhile)
    ultimately show ?thesis using Cons by simp
  qed
qed

lemma strip_no_trailing: "takeWhile isspace (rev (strip body)) = []"
proof -
  have "rev (strip body) = dropWhile isspace (rev (dropWhile isspace body))"
    by (simp add: strip_def)
  then show ?thesis
    by (metis hd_dropWhile list.collapse takeWhile.simps(1) takeWhile.simps(2)) 
qed

lemma strip_decomposition:
  "\<exists>pre suf. body = pre @ strip body @ suf \<and> list_all isspace pre \<and> list_all isspace suf"
proof -
  define r where "r = dropWhile isspace body"
  have "r = rev (rev r)" by simp
  also have "\<dots> = rev (takeWhile isspace (rev r) @ dropWhile isspace (rev r))"
    by (simp only: takeWhile_dropWhile_id)
  also have "\<dots> = rev (dropWhile isspace (rev r)) @ rev (takeWhile isspace (rev r))"
    by (simp only: rev_append)
  finally have r: "r = strip body @ rev (takeWhile isspace (rev r))"
    by (simp add: strip_def r_def)
  have "body = takeWhile isspace body @ r" by (simp add: r_def)
  with r have "body = takeWhile isspace body @ strip body @ rev (takeWhile isspace (rev r))"
    by simp
  moreover have "list_all isspace (takeWhile isspace body)"
    by (simp add: list_all_iff) (meson set_takeWhileD)
  moreover have "list_all isspace (rev (takeWhile isspace (rev r)))"
    by (simp add: list_all_iff) (meson set_takeWhileD)
  ultimately show ?thesis by blast
qed


section \<open>Validation of the secrets\<close>

lemma truthy_dict_get: "truthy (dict_get d k) \<longleftrightarrow> (\<exists>s. d k = Some (Some s) \<and> s \<noteq> [])"
  by (auto simp: truthy_def dict_get_def split: option.splits)

lemma falsy_dict_get:
  "\<not> truthy (dict_get d k) \<longleftrightarrow> (d k = None \<or> d k = Some None \<or> d k = Some (Some []))"
  by (auto simp: truthy_def dict_get_def split: option.splits)

lemma missing_keys_Nil: "missing_keys d = [] \<longleftrightarrow> (\<forall>k\<in>set required_keys. truthy (dict_get d k))"
  by (simp add: missing_keys_def filter_empty_conv)

lemma set_missing_keys:
  "set (missing_keys d) = {k \<in> set required_keys. \<not> truthy (dict_get d k)}"
  by (simp add: missing_keys_def)

lemma dict_item_truthy: "truthy (dict_get d k) \<Longrightarrow> dict_item d k = Inr (dict_get d k)"
  by (auto simp: truthy_def dict_get_def dict_item_def split: option.splits)

lemma init_valid:
  assumes "missing_keys d = []"
  shows "init k d =
    (case check_credential k
            (ClientSecretCredential (dict_get d ''azure_tenant_id'')
               (dict_get d ''azure_client_id'') (dict_get d ''azure_client_secret'')) of
       Some e \<Rightarrow> Inl e
     | None \<Rightarrow>
        (case check_llm k
                \<lparr> azure_endpoint = dict_get d ''azure_endpoint'',
                  azure_deployment = dict_get_default d ''azure_deployment_name'' ''gpt-4'',
                  api_version = dict_get_default d ''azure_api_version'' ''2024-02-15-preview'',
                  azure_ad_token_provider =
                    (ClientSecretCredential (dict_get d ''azure_tenant_id'')
                       (dict_get d ''azure_client_id'') (dict_get d ''azure_client_secret''),
                     ''https://cognitiveservices.azure.com/.default''),
                  temperature = 0.1, max_tokens = 4000 \<rparr> of
           Some e \<Rightarrow> Inl e
         | None \<Rightarrow>
            Inr \<lparr> secrets = d,
                  credential = ClientSecretCredential (dict_get d ''azure_tenant_id'')
                    (dict_get d ''azure_client_id'') (dict_get d ''azure_client_secret''),
                  llm = \<lparr> azure_endpoint = dict_get d ''azure_endpoint'',
                    azure_deployment = dict_get_default d ''azure_deployment_name'' ''gpt-4'',
                    api_version = dict_get_default d ''azure_api_version'' ''2024-02-15-preview'',
                    azure_ad_token_provider =
                      (ClientSecretCredential (dict_get d ''azure_tenant_id'')
                         (dict_get d ''azure_client_id'') (dict_get d ''azure_client_secret''),
                       ''https://cognitiveservices.azure.com/.default''),
                    temperature = 0.1, max_tokens = 4000 \<rparr> \<rparr>))"
proof -
  from assms have "\<forall>k\<in>set required_keys. dict_item d k = Inr (dict_get d k)"
    by (simp add: missing_keys_Nil dict_item_truthy)
  then have items: "dict_item d ''azure_tenant_id'' = Inr (dict_get d ''azure_tenant_id'')"
    "dict_item d ''azure_client_id'' = Inr (dict_get d ''azure_client_id'')"
    "dict_item d ''azure_client_secret'' = Inr (dict_get d ''azure_client_secret'')"
    "dict_item d ''azure_endpoint'' = Inr (dict_get d ''azure_endpoint'')"
    by (simp_all add: required_keys_def)
  show ?thesis
    by (simp add: init_def validate_secrets_def assms setup_azure_credentials_def
        initialize_langchain_client_def items new_ClientSecretCredential_def
        new_AzureChatOpenAI_def split: option.splits)
qed

lemma init_fail:
  "missing_keys d \<noteq> [] \<Longrightarrow>
   init k d = Inl (ValueError (''Missing required secrets: '' @ repr_list (missing_keys d)))"
  by (simp add: init_def validate_secrets_def)

lemma init_Inr_missing: "init k d = Inr c \<Longrightarrow> missing_keys d = []"
  by (rule ccontr) (simp add: init_fail)

lemma llm_of_init:
  assumes "init k d = Inr c"
  shows "llm c = \<lparr> azure_endpoint = dict_get d ''azure_endpoint'',
             azure_deployment = dict_get_default d ''azure_deployment_name'' ''gpt-4'',
             api_version = dict_get_default d ''azure_api_version'' ''2024-02-15-preview'',
             azure_ad_token_provider =
               (ClientSecretCredential (dict_get d ''azure_tenant_id'')
                  (dict_get d ''azure_client_id'') (dict_get d ''azure_client_secret''),
                ''https://cognitiveservices.azure.com/.default''),
             temperature = 0.1, max_tokens = 4000 \<rparr>"
  using init_valid [OF init_Inr_missing [OF assms], of k] assms
  by (auto split: option.splits)

lemma join_unfold:
  "join sep xs = (case xs of [] \<Rightarrow> [] | x # r \<Rightarrow> x @ concat (map (\<lambda>y. sep @ y) r))"
  by (induction sep xs rule: join.induct) simp_all

lemma sublist_extend: "sublist xs ys \<Longrightarrow> sublist xs (p @ ys @ s)"
proof -
  assume "sublist xs ys"
  then obtain a b where "ys = a @ xs @ b" unfolding sublist_def by blast
  then have "p @ ys @ s = (p @ a) @ xs @ (b @ s)" by simp
  then show ?thesis unfolding sublist_def by blast
qed

lemma sublist_join: "x \<in> set xs \<Longrightarrow> sublist x (join sep xs)"
proof (induction sep xs rule: join.induct)
  case (1 sep)
  then show ?case by simp
next
  case (2 sep y)
  then show ?case by simp
next
  case (3 sep y z zs)
  show ?case
  proof (cases "x = y")
    case True
    then show ?thesis by simp
  next
    case False
    with 3 have "sublist x (join sep (z # zs))" by simp
    then have "sublist x ((y @ sep) @ join sep (z # zs) @ [])"
      by (rule sublist_extend)
    then show ?thesis by simp
  qed
qed

lemma sublist_repr_list: "k \<in> set ks \<Longrightarrow> sublist (repr_str k) (repr_list ks)"
proof -
  assume "k \<in> set ks"
  then have "repr_str k \<in> set (map repr_str ks)" by simp
  then have "sublist (repr_str k) (join '', '' (map repr_str ks))" by (rule sublist_join)
  then show ?thesis unfolding repr_list_def by (rule sublist_extend)
qed

lemma dict_of_permuted:
  assumes "distinct (map fst es)" and "mset es' = mset es"
  shows "dict_of es' = dict_of es"
proof -
  from assms(2) have "mset (map fst es') = mset (map fst es)" by simp
  then have d': "distinct (map fst es')"
    using assms(1) mset_eq_imp_distinct_iff by blast
  have s: "set es' = set es" using assms(2) by (rule mset_eq_setD)
  have "distinct (map fst (rev es'))"
    using d' by (simp add: rev_map [symmetric])
  moreover have "distinct (map fst (rev es))"
    using assms(1) by (simp add: rev_map [symmetric])
  moreover have "set (rev es') = set (rev es)" using s by simp
  ultimately have "map_of (rev es') = map_of (rev es)"
    by (simp only: map_of_inject_set)
  then show ?thesis by (simp add: dict_of_def)
qed

lemma missing_keys_cong:
  "(\<forall>k\<in>set required_keys. truthy (dict_get d k) = truthy (dict_get d' k)) \<Longrightarrow>
   missing_keys d = missing_keys d'"
  unfolding missing_keys_def by (rule filter_cong) simp_all


section \<open>Formatting a parsed template\<close>

lemma well_formed_hello_name: "well_formed hello_name"
  by (simp add: hello_name_def well_formed_def plain_piece_def plain_char_def simple_name_def
      unmodelled_name_def name_char_def unmodelled_char_def isdigit_def)

lemma render_hello_name: "render hello_name = ''Hello {name}''"
  by (simp add: hello_name_def render_def render_piece_def)

lemma format_template_missing:
  assumes "Var n \<in> set ps" and "variables n = None"
  shows "\<exists>missing. n \<in> set missing \<and> format_template ps variables = Inl (MissingVariables missing)"
proof -
  from assms(1) have "n \<in> set (input_variables ps)"
    by (force simp: input_variables_def)
  with assms(2) have "n \<in> set (filter (\<lambda>n. variables n = None) (input_variables ps))"
    by simp
  then show ?thesis
    by (auto simp: format_template_def Let_def filter_empty_conv)
qed

lemma format_template_supplied:
  assumes "\<forall>n. Var n \<in> set ps \<longrightarrow> variables n = Some (val n)"
  shows "format_template ps variables = Inr (substitute val ps)"
proof -
  have a: "filter (\<lambda>n. variables n = None) (input_variables ps) = []"
    using assms by (force simp: input_variables_def filter_empty_conv split: piece.splits)
  have b: "map (format_piece variables) ps =
      map (\<lambda>p. case p of Chr c \<Rightarrow> [c] | Var n \<Rightarrow> val n) ps"
    by (rule map_cong [OF refl]) (use assms in \<open>auto simp: format_piece_def split: piece.splits\<close>)
  show ?thesis
    unfolding format_template_def substitute_def Let_def a b by simp
qed


section \<open>Requests and replies\<close>

lemma chat_frame:
  "self (snd (chat m s w)) = self w \<and> service (snd (chat m s w)) = service w"
  unfolding chat_is_template_call by (rule chat_with_template_frame)

lemma chat_with_template_reply:
  assumes "sent (snd (chat_with_template t vars s w)) = sent w @ [req]"
    and "service w (sent w) req = Inr body"
  shows "fst (chat_with_template t vars s w) = Inr (strip body)"
proof (cases rule: chat_with_template_cases [of t vars s w])
  case (parse_error e)
  with assms(1) show ?thesis by simp
next
  case (format_error ps e)
  with assms(1) show ?thesis by simp
next
  case (sends ps u)
  with assms(1) have "req = (llm (self w), system_entries s @ [HumanMessage u])" by simp
  with sends(3) assms(2) show ?thesis by (simp add: stripped_def)
qed

lemma chat_hi: "chat ''Hi'' None w =
  (stripped (service w (sent w) (llm (self w), [HumanMessage ''Hi''])),
   w\<lparr>sent := sent w @ [(llm (self w), [HumanMessage ''Hi''])]\<rparr>)"
proof -
  have "from_template ''Hi'' = Inr [Chr CHR ''H'', Chr CHR ''i'']"
    by (simp add: cons_piece_def)
  moreover have "format_template [Chr CHR ''H'', Chr CHR ''i''] Map.empty = Inr ''Hi''"
    by (simp add: format_template_def input_variables_def format_piece_def)
  ultimately have "chat_with_template ''Hi'' Map.empty None w =
    (stripped (service w (sent w) (llm (self w), system_entries None @ [HumanMessage ''Hi''])),
     w\<lparr>sent := sent w @ [(llm (self w), system_entries None @ [HumanMessage ''Hi''])]\<rparr>)"
    by (rule chat_with_template_sends)
  then show ?thesis
    by (simp add: chat_is_template_call system_entries_def)
qed

lemma strip_example: "strip ''  Hi there  \<newline>'' = ''Hi there''"
  by (simp add: strip_def isspace_def)

lemma chat_plain_message:
  assumes "list_all plain_char m"
  shows "chat m s w =
     (stripped (service w (sent w) (llm (self w), system_entries s @ [HumanMessage m])),
      w\<lparr>sent := sent w @ [(llm (self w), system_entries s @ [HumanMessage m])]\<rparr>)"
proof -
  have wf: "well_formed (map Chr m)"
    using assms by (simp add: well_formed_def list_all_iff plain_piece_def)
  have r: "render (map Chr m) = m"
    by (induction m) (simp_all add: render_def render_piece_def)
  have "\<forall>n. Var n \<in> set (map Chr m) \<longrightarrow> Map.empty n = Some ((\<lambda>_. []) n)"
    by auto
  then have f: "format_template (map Chr m) Map.empty = Inr (substitute (\<lambda>_. []) (map Chr m))"
    by (rule format_template_supplied)
  have sub: "substitute (\<lambda>_. []) (map Chr m) = m"
    by (induction m) (simp_all add: substitute_def)
  from from_template_render [OF wf] have p: "from_template m = Inr (map Chr m)"
    by (simp add: r)
  from chat_with_template_sends [OF p f, of s w] show ?thesis
    by (simp add: chat_is_template_call sub)
qed

lemma chat_with_template_request:
  assumes "sent (snd (chat_with_template t vars s w)) = sent w @ [req]"
  shows "fst req = llm (self w)"
proof (cases rule: chat_with_template_cases [of t vars s w])
  case (parse_error e)
  with assms show ?thesis by simp
next
  case (format_error ps e)
  with assms show ?thesis by simp
next
  case (sends ps u)
  with assms show ?thesis by auto
qed


section \<open>Construction on the example inputs\<close>

lemma init_example: "init tenant_checking_sdk example_secrets = Inr example_client"
  by (simp add: init_def validate_secrets_def missing_keys_def required_keys_def
      dict_get_def truthy_def example_secrets_def dict_of_def setup_azure_credentials_def
      dict_item_def initialize_langchain_client_def dict_get_default_def example_client_def
      new_ClientSecretCredential_def new_AzureChatOpenAI_def tenant_checking_sdk_def
      valid_tenant_char_def)

lemma env_secrets_optional:
  "env_secrets env ''azure_deployment_name'' =
     Some (getenv_default env ''AZURE_DEPLOYMENT_NAME'' ''gpt-4'')"
  "env_secrets env ''azure_api_version'' =
     Some (getenv_default env ''AZURE_API_VERSION'' ''2024-02-15-preview'')"
  by (simp_all add: env_secrets_def dict_of_def)

lemma init_example_env:
  "create_client_from_env tenant_checking_sdk example_env =
     Inr (example_client\<lparr>secrets := env_secrets example_env\<rparr>)"
  by (simp add: create_client_from_env_def init_def validate_secrets_def missing_keys_def
      required_keys_def dict_get_def truthy_def env_secrets_def dict_of_def
      setup_azure_credentials_def dict_item_def initialize_langchain_client_def
      dict_get_default_def example_client_def example_env_def getenv_def getenv_default_def
      example_secrets_def new_ClientSecretCredential_def new_AzureChatOpenAI_def
      tenant_checking_sdk_def valid_tenant_char_def)


lemma missing_keys_explicit:
  "missing_keys d =
     filter (\<lambda>key. d key = None \<or> d key = Some None \<or> d key = Some (Some []))
       [''azure_tenant_id'', ''azure_client_id'', ''azure_client_secret'', ''azure_endpoint'']"
  unfolding missing_keys_def required_keys_def
  by (rule filter_cong [OF refl]) (simp only: falsy_dict_get)

lemma repr_list_explicit:
  "repr_list ks =
     ''['' @ (case ks of [] \<Rightarrow> []
            | x # r \<Rightarrow> [CHR 0x27] @ x @ [CHR 0x27] @
                concat (map (\<lambda>y. '', '' @ [CHR 0x27] @ y @ [CHR 0x27]) r)) @ '']''"
  by (simp add: repr_list_def join_unfold repr_str_def comp_def split: list.splits)

lemma sublist_quoted:
  "key \<in> set ks \<Longrightarrow>
   sublist ([CHR 0x27] @ key @ [CHR 0x27]) (''Missing required secrets: '' @ repr_list ks)"
proof -
  assume "key \<in> set ks"
  then have "sublist (repr_str key) (repr_list ks)" by (rule sublist_repr_list)
  then have "sublist (repr_str key) (''Missing required secrets: '' @ repr_list ks @ [])"
    by (rule sublist_extend)
  then show ?thesis by (simp add: repr_str_def)
qed

lemma init_partial:
  "init k partial_secrets =
     Inl (ValueError (''Missing required secrets: ['' @ [CHR 0x27] @ ''azure_client_id'' @
       [CHR 0x27] @ '', '' @ [CHR 0x27] @ ''azure_client_secret'' @ [CHR 0x27] @ '', '' @
       [CHR 0x27] @ ''azure_endpoint'' @ [CHR 0x27] @ '']''))"
  by (simp add: init_def validate_secrets_def missing_keys_def required_keys_def
      dict_get_def truthy_def partial_secrets_def dict_of_def repr_list_def repr_str_def)

lemma example_secrets_present:
  "\<forall>key\<in>set [''azure_tenant_id'', ''azure_client_id'', ''azure_client_secret'',
      ''azure_endpoint'']. \<exists>v. example_secrets key = Some (Some v) \<and> v \<noteq> []"
  by (simp add: example_secrets_def dict_of_def)

lemma example_secrets_optional:
  "example_secrets ''azure_deployment_name'' = None"
  "example_secrets ''azure_api_version'' = None"
  by (simp_all add: example_secrets_def dict_of_def)

lemma example_secrets_values:
  "example_secrets ''azure_tenant_id'' = Some (Some ''tenant'')"
  "example_secrets ''azure_client_id'' = Some (Some ''app'')"
  "example_secrets ''azure_client_secret'' = Some (Some ''secret'')"
  "example_secrets ''azure_endpoint'' = Some (Some ''https://example.openai.azure.com'')"
  by (simp_all add: example_secrets_def dict_of_def)

lemma tenant_checking_sdk_accepts:
  "check_credential tenant_checking_sdk (ClientSecretCredential (Some ''tenant'') c s) = None"
  "check_llm tenant_checking_sdk args = None"
  by (simp_all add: tenant_checking_sdk_def valid_tenant_char_def)


section \<open>Calls on the example inputs\<close>

lemma from_template_Hi: "from_template ''Hi'' = Inr [Chr CHR ''H'', Chr CHR ''i'']"
  by (simp add: cons_piece_def)

lemma format_template_Hi: "format_template [Chr CHR ''H'', Chr CHR ''i''] Map.empty = Inr ''Hi''"
  by (simp add: format_template_def input_variables_def format_piece_def)

lemma from_template_hello_name: "from_template ''Hello {name}'' = Inr hello_name"
  using from_template_render [OF well_formed_hello_name] by (simp add: render_hello_name)

lemma format_template_hello_Ada:
  "format_template hello_name [''name'' \<mapsto> ''Ada''] = Inr ''Hello Ada''"
  by (simp add: format_template_def input_variables_def format_piece_def hello_name_def)

lemma chat_with_template_answer:
  assumes "from_template t = Inr ps" and "format_template ps vars = Inr u"
    and "service w (sent w) (llm (self w), system_entries s @ [HumanMessage u]) = Inr body"
  shows "fst (chat_with_template t vars s w) = Inr (strip body)"
  using chat_with_template_sends [OF assms(1,2), of s w] assms(3)
  by (simp add: stripped_def)


section \<open>The claims about the two chat calls\<close>

text \<open>
  C1: for every message \<open>m\<close> and non-empty system instruction, \<^verbatim>\<open>chat\<close> is claimed to
  send the system entry and then a user entry whose content is exactly \<open>m\<close>, with no
  placeholder substitution. The source makes a template of the message and formats it
  with an empty mapping, so a message with a placeholder is not sent at all: the call
  \<^verbatim>\<open>chat("Hello {name}", system_message="S")\<close> raises the missing-variable error and
  leaves the world as it was.
\<close>

theorem chat_message_parsed_as_template:
  "chat ''Hello {name}'' (Some ''S'') w = (Inl (MissingVariables [''name'']), w)"
proof -
  have "from_template ''Hello {name}'' = Inr hello_name"
    using from_template_render [OF well_formed_hello_name] by (simp add: render_hello_name)
  moreover have "format_template hello_name Map.empty = Inl (MissingVariables [''name''])"
    by (simp add: format_template_def input_variables_def hello_name_def)
  ultimately show ?thesis
    unfolding chat_is_template_call by (rule chat_with_template_format_error)
qed

text \<open>
  C2: a template with a placeholder \<^verbatim>\<open>{n}\<close> and a mapping with no entry for \<open>n\<close>:
  \<^verbatim>\<open>chat_with_template\<close> raises the missing-variable error, which names \<open>n\<close>, and
  the world is unchanged, so no request (literal or partly substituted) is sent.
\<close>

theorem chat_with_template_missing_variable:
  assumes "well_formed ps" and "Var n \<in> set ps" and "variables n = None"
  shows "\<exists>missing. n \<in> set missing \<and>
           chat_with_template (render ps) variables system_message w =
             (Inl (MissingVariables missing), w)"
proof -
  from format_template_missing [of n ps variables] assms(2,3) obtain missing
    where m: "n \<in> set missing" "format_template ps variables = Inl (MissingVariables missing)"
    by blast
  from from_template_render [OF assms(1)] m(2)
  have "chat_with_template (render ps) variables system_message w =
          (Inl (MissingVariables missing), w)"
    by (rule chat_with_template_format_error)
  with m(1) show ?thesis by blast
qed

text \<open>The instance of the spec: \<^verbatim>\<open>chat_with_template("Hello {name}", {})\<close>.\<close>

theorem chat_with_template_missing_variable_witness:
  "\<exists>missing. ''name'' \<in> set missing \<and>
     chat_with_template ''Hello {name}'' Map.empty None example_world =
       (Inl (MissingVariables missing), example_world)"
  using chat_with_template_missing_variable
    [of hello_name "''name''" Map.empty None example_world]
  by (simp add: well_formed_hello_name render_hello_name) (simp add: hello_name_def)

text \<open>
  C4 is claimed for every template. It holds for the templates made of text without
  braces and of placeholders: with a mapping that has a value for every placeholder of
  such a template, \<^verbatim>\<open>chat_with_template\<close> sends one request, whose user entry is the
  template with every placeholder replaced by its value, after the system entry if there
  is one, and returns the stripped answer of the service.
\<close>

theorem chat_with_template_substitutes:
  assumes "well_formed ps" and "\<forall>n. Var n \<in> set ps \<longrightarrow> variables n = Some (val n)"
  shows "chat_with_template (render ps) variables system_message w =
     (stripped (service w (sent w)
        (llm (self w), system_entries system_message @ [HumanMessage (substitute val ps)])),
      w\<lparr>sent := sent w @
        [(llm (self w), system_entries system_message @ [HumanMessage (substitute val ps)])]\<rparr>)"
  using from_template_render [OF assms(1)] format_template_supplied [OF assms(2)]
  by (rule chat_with_template_sends)

text \<open>The instance of the spec: \<^verbatim>\<open>chat_with_template("Hello {name}", {"name": "Ada"})\<close>.\<close>

theorem chat_with_template_substitutes_witness:
  "chat_with_template ''Hello {name}'' [''name'' \<mapsto> ''Ada''] None example_world =
     (Inr ''Hi there'',
      example_world\<lparr>sent := [(llm example_client, [HumanMessage ''Hello Ada''])]\<rparr>)"
proof -
  have "\<forall>n. Var n \<in> set hello_name \<longrightarrow> [''name'' \<mapsto> ''Ada''] n = Some ((\<lambda>_. ''Ada'') n)"
    by (simp add: hello_name_def)
  from chat_with_template_substitutes [OF well_formed_hello_name this, of None example_world]
  have "chat_with_template ''Hello {name}'' [''name'' \<mapsto> ''Ada''] None example_world =
     (stripped (service example_world (sent example_world)
        (llm (self example_world), system_entries None @ [HumanMessage (substitute (\<lambda>_. ''Ada'') hello_name)])),
      example_world\<lparr>sent := sent example_world @
        [(llm (self example_world), system_entries None @ [HumanMessage (substitute (\<lambda>_. ''Ada'') hello_name)])]\<rparr>)"
    by (simp only: render_hello_name)
  then show ?thesis
    by (simp add: substitute_def hello_name_def system_entries_def
        example_world_def steady_service_def stripped_def strip_def isspace_def)
qed

text \<open>
  Counterexample to C4 as it is stated: the template \<^verbatim>\<open>a}\<close> has no placeholder, so
  the empty mapping has an entry for each of them, and yet no user message is sent: the
  lone brace is rejected when the template is parsed.
\<close>

theorem chat_with_template_lone_brace_counterexample:
  "chat_with_template ''a}'' Map.empty None example_world =
     (Inl (ValueError (''Single '' @ [CHR 0x27] @ ''}'' @ [CHR 0x27] @
        '' encountered in format string'')), example_world) \<and>
   sent (snd (chat_with_template ''a}'' Map.empty None example_world)) = []"
proof -
  have "from_template ''a}'' = Inl (ValueError single_close)"
    by (simp add: cons_piece_def)
  then have "chat_with_template ''a}'' Map.empty None example_world =
      (Inl (ValueError single_close), example_world)"
    by (rule chat_with_template_parse_error)
  then show ?thesis
    by (simp add: single_close_def repr_str_def example_world_def)
qed

text \<open>
  C5: when the service answers the request of \<^verbatim>\<open>chat\<close> or \<^verbatim>\<open>chat_with_template\<close> with
  a completion body, the call returns that body stripped. The request is the one built
  from the arguments of the call (first two parts), and equally the one the call is seen
  to send (next two parts). The body is whitespace, then the returned string, then
  whitespace, and the returned string neither starts nor ends with whitespace.
\<close>

theorem response_whitespace_stripped:
  "(from_template m = Inr ps \<and> format_template ps Map.empty = Inr u \<and>
      service w (sent w) (llm (self w), system_entries s @ [HumanMessage u]) = Inr body \<longrightarrow>
      fst (chat m s w) = Inr (strip body)) \<and>
   (from_template t = Inr ps' \<and> format_template ps' vars = Inr u' \<and>
      service w (sent w) (llm (self w), system_entries s @ [HumanMessage u']) = Inr body \<longrightarrow>
      fst (chat_with_template t vars s w) = Inr (strip body)) \<and>
   (sent (snd (chat m s w)) = sent w @ [req] \<and> service w (sent w) req = Inr body \<longrightarrow>
      fst (chat m s w) = Inr (strip body)) \<and>
   (sent (snd (chat_with_template t vars s w)) = sent w @ [req] \<and>
      service w (sent w) req = Inr body \<longrightarrow>
      fst (chat_with_template t vars s w) = Inr (strip body)) \<and>
   (\<exists>pre suf. body = pre @ strip body @ suf \<and> list_all isspace pre \<and> list_all isspace suf) \<and>
   takeWhile isspace (strip body) = [] \<and>
   takeWhile isspace (rev (strip body)) = []"
  using chat_with_template_answer [of m ps Map.empty u w s body]
    chat_with_template_answer [of t ps' vars u' w s body]
    chat_with_template_reply [of m Map.empty s w req body]
    chat_with_template_reply [of t vars s w req body]
    strip_decomposition [of body] strip_no_leading [of body] strip_no_trailing [of body]
  unfolding chat_is_template_call by blast

text \<open>
  The instance of the spec, for both calls: the body \<^verbatim>\<open>"  Hi there  \n"\<close> is returned
  as \<^verbatim>\<open>"Hi there"\<close>.
\<close>

theorem response_whitespace_stripped_witness:
  "fst (chat ''Hi'' None example_world) = Inr ''Hi there'' \<and>
   fst (chat_with_template ''Hello {name}'' [''name'' \<mapsto> ''Ada''] None example_world) =
     Inr ''Hi there'' \<and>
   strip ''  Hi there  \<newline>'' = ''Hi there''"
proof -
  have a: "service example_world (sent example_world)
      (llm (self example_world), system_entries None @ [HumanMessage ''Hi'']) =
      Inr ''  Hi there  \<newline>''"
    by (simp add: example_world_def steady_service_def)
  have b: "service example_world (sent example_world)
      (llm (self example_world), system_entries None @ [HumanMessage ''Hello Ada'']) =
      Inr ''  Hi there  \<newline>''"
    by (simp add: example_world_def steady_service_def)
  from response_whitespace_stripped
    [of "''Hi''" "[Chr CHR ''H'', Chr CHR ''i'']" "''Hi''" example_world None
       "''  Hi there  \<newline>''" "''Hi''" "[Chr CHR ''H'', Chr CHR ''i'']" Map.empty "''Hi''"]
    from_template_Hi format_template_Hi a
  have c: "fst (chat ''Hi'' None example_world) = Inr (strip ''  Hi there  \<newline>'')"
    by blast
  from response_whitespace_stripped
    [of "''Hi''" "[Chr CHR ''H'', Chr CHR ''i'']" "''Hi''" example_world None
       "''  Hi there  \<newline>''" "''Hello {name}''" hello_name "[''name'' \<mapsto> ''Ada'']"
       "''Hello Ada''"]
    from_template_hello_name format_template_hello_Ada b
  have d: "fst (chat_with_template ''Hello {name}'' [''name'' \<mapsto> ''Ada''] None example_world) =
      Inr (strip ''  Hi there  \<newline>'')"
    by blast
  from c d show ?thesis by (simp add: strip_example)
qed

text \<open>
  C9: a call with the empty string as system message is the same computation as a call
  with no system message, and the request it sends has the user entry only.
\<close>

theorem empty_system_message_is_absent:
  "chat m (Some []) w = chat m None w \<and>
   chat_with_template t vars (Some []) w = chat_with_template t vars None w \<and>
   (sent (snd (chat m (Some []) w)) = sent w @ [req] \<longrightarrow> (\<exists>u. snd req = [HumanMessage u])) \<and>
   (sent (snd (chat_with_template t vars (Some []) w)) = sent w @ [req] \<longrightarrow>
      (\<exists>u. snd req = [HumanMessage u]))"
proof -
  have sys: "system_messages (Some []) = system_messages None"
    by (simp add: system_messages_def)
  have only_user: "\<exists>u. snd r = [HumanMessage u]"
    if "sent (snd (chat_with_template x vs (Some []) w)) = sent w @ [r]" for x vs r
  proof (cases rule: chat_with_template_cases [of x vs "Some []" w])
    case (parse_error e)
    with that show ?thesis by simp
  next
    case (format_error ps e)
    with that show ?thesis by simp
  next
    case (sends ps u)
    with that show ?thesis by (auto simp: system_entries_def)
  qed
  show ?thesis
    using only_user [of m Map.empty req] only_user [of t vars req]
    by (simp add: chat_def chat_with_template_def sys)
qed

text \<open>On the example world, the request of such a call is the single user entry.\<close>

theorem empty_system_message_is_absent_witness:
  "chat ''Hi'' (Some []) example_world = chat ''Hi'' None example_world \<and>
   sent (snd (chat ''Hi'' (Some []) example_world)) = [(llm example_client, [HumanMessage ''Hi''])]"
proof -
  from empty_system_message_is_absent [of "''Hi''" example_world "''Hi''" Map.empty]
  have "chat ''Hi'' (Some []) example_world = chat ''Hi'' None example_world" by blast
  then show ?thesis by (simp add: chat_hi example_world_def)
qed

text \<open>
  C8: a call of \<^verbatim>\<open>chat\<close> or \<^verbatim>\<open>chat_with_template\<close>, whatever it returns, leaves the
  client object (its secrets, credential and completion client) and the service as
  they were; only the list of requests sent can grow. A later call on the resulting
  world is therefore answered by the same client and service, and succeeds when the
  service answers its request.
\<close>

theorem calls_leave_client_unchanged:
  "self (snd (chat m s w)) = self w \<and> service (snd (chat m s w)) = service w \<and>
   self (snd (chat_with_template t vars s w)) = self w \<and>
   service (snd (chat_with_template t vars s w)) = service w \<and>
   (\<forall>w'. (w' = snd (chat m s w) \<or> w' = snd (chat_with_template t vars s w)) \<and>
      from_template m' = Inr ps \<and> format_template ps vars' = Inr u \<longrightarrow>
      fst (chat_with_template m' vars' s' w') =
        stripped (service w (sent w') (llm (self w), system_entries s' @ [HumanMessage u]))) \<and>
   (\<forall>w'. (w' = snd (chat m s w) \<or> w' = snd (chat_with_template t vars s w)) \<and>
      from_template m' = Inr ps \<and> format_template ps Map.empty = Inr u \<longrightarrow>
      fst (chat m' s' w') =
        stripped (service w (sent w') (llm (self w), system_entries s' @ [HumanMessage u])))"
proof -
  have next_call: "fst (chat_with_template m' vs s' w') =
      stripped (service w (sent w') (llm (self w), system_entries s' @ [HumanMessage u]))"
    if "self w' = self w" "service w' = service w"
      "from_template m' = Inr ps" "format_template ps vs = Inr u" for w' vs
    using chat_with_template_sends [OF that(3,4), of s' w'] that(1,2) by simp
  have frame: "self w' = self w \<and> service w' = service w"
    if "w' = snd (chat m s w) \<or> w' = snd (chat_with_template t vars s w)" for w'
    using that chat_frame [of m s w] chat_with_template_frame [of t vars s w] by blast
  show ?thesis
    using chat_frame [of m s w] chat_with_template_frame [of t vars s w]
      next_call frame
    unfolding chat_is_template_call [of m' s'] by blast
qed

text \<open>
  A service that fails on the first request: the first call raises, the client is the
  same, and the second call on the same client succeeds.
\<close>

theorem calls_leave_client_unchanged_witness:
  "fst (chat ''Hi'' None flaky_world) = Inl (RequestError ''timeout'') \<and>
   self (snd (chat ''Hi'' None flaky_world)) = example_client \<and>
   fst (chat ''Hi'' None (snd (chat ''Hi'' None flaky_world))) = Inr ''Hi there''"
proof -
  let ?w1 = "snd (chat ''Hi'' None flaky_world)"
  have p: "from_template ''Hi'' = Inr [Chr CHR ''H'', Chr CHR ''i'']"
    by (simp add: cons_piece_def)
  have f: "format_template [Chr CHR ''H'', Chr CHR ''i''] Map.empty = Inr ''Hi''"
    by (simp add: format_template_def input_variables_def format_piece_def)
  from calls_leave_client_unchanged
    [of "''Hi''" None flaky_world "''Hi''" Map.empty "''Hi''" "[Chr CHR ''H'', Chr CHR ''i'']"
       Map.empty "''Hi''" None]
  have "self ?w1 = self flaky_world"
    and "fst (chat ''Hi'' None ?w1) =
      stripped (service flaky_world (sent ?w1)
        (llm (self flaky_world), system_entries None @ [HumanMessage ''Hi'']))"
    using p f by blast+
  then show ?thesis
    by (simp add: chat_hi flaky_world_def flaky_service_def stripped_def strip_example)
qed


section \<open>The claims about construction\<close>

text \<open>
  Counterexample to C3 as it is stated: all four required keys have non-empty values, and
  construction still fails, because the credential constructor of the SDK refuses the
  tenant id.
\<close>

theorem construction_rejected_by_sdk_counterexample:
  "spaced_tenant_secrets ''azure_tenant_id'' = Some (Some ''my tenant'') \<and>
   spaced_tenant_secrets ''azure_client_id'' = Some (Some ''app'') \<and>
   spaced_tenant_secrets ''azure_client_secret'' = Some (Some ''secret'') \<and>
   spaced_tenant_secrets ''azure_endpoint'' = Some (Some ''https://example.openai.azure.com'') \<and>
   init tenant_checking_sdk spaced_tenant_secrets = Inl (ValueError ''Invalid tenant ID provided'')"
  by (simp add: init_def validate_secrets_def missing_keys_def required_keys_def
      dict_get_def truthy_def spaced_tenant_secrets_def dict_of_def setup_azure_credentials_def
      dict_item_def new_ClientSecretCredential_def tenant_checking_sdk_def
      valid_tenant_char_def)

text \<open>
  C3, for every SDK: when each of the four required keys has a non-empty value, validation
  accepts the mapping and construction hands the values to the two SDK constructors; it
  fails with the error of the first constructor that refuses them and succeeds, keeping
  the mapping, when both accept. When some required key is absent, \<^verbatim>\<open>None\<close> or empty,
  construction fails with a \<^verbatim>\<open>ValueError\<close> whose message starts with
  \<^verbatim>\<open>Missing required secrets: [\<close>, ends with \<^verbatim>\<open>]\<close> and contains the name of every
  such key between single quotes.
\<close>

theorem construction_validates_secrets:
  "((\<forall>key\<in>set [''azure_tenant_id'', ''azure_client_id'', ''azure_client_secret'',
                  ''azure_endpoint'']. \<exists>v. d key = Some (Some v) \<and> v \<noteq> []) \<longrightarrow>
      (let cred = ClientSecretCredential (the (d ''azure_tenant_id''))
                    (the (d ''azure_client_id'')) (the (d ''azure_client_secret''));
           args = \<lparr> azure_endpoint = the (d ''azure_endpoint''),
                    azure_deployment =
                      (case d ''azure_deployment_name'' of None \<Rightarrow> Some ''gpt-4'' | Some v \<Rightarrow> v),
                    api_version =
                      (case d ''azure_api_version'' of
                         None \<Rightarrow> Some ''2024-02-15-preview'' | Some v \<Rightarrow> v),
                    azure_ad_token_provider =
                      (cred, ''https://cognitiveservices.azure.com/.default''),
                    temperature = 0.1, max_tokens = 4000 \<rparr>
       in init k d =
            (case check_credential k cred of
               Some e \<Rightarrow> Inl e
             | None \<Rightarrow>
                (case check_llm k args of
                   Some e \<Rightarrow> Inl e
                 | None \<Rightarrow> Inr \<lparr> secrets = d, credential = cred, llm = args \<rparr>)))) \<and>
   (\<forall>key\<in>set [''azure_tenant_id'', ''azure_client_id'', ''azure_client_secret'',
                 ''azure_endpoint''].
      (d key = None \<or> d key = Some None \<or> d key = Some (Some [])) \<longrightarrow>
      (\<exists>msg. init k d = Inl (ValueError msg) \<and>
         prefix ''Missing required secrets: ['' msg \<and> suffix '']'' msg \<and>
         (\<forall>key'\<in>set [''azure_tenant_id'', ''azure_client_id'', ''azure_client_secret'',
                        ''azure_endpoint''].
            (d key' = None \<or> d key' = Some None \<or> d key' = Some (Some [])) \<longrightarrow>
            sublist ([CHR 0x27] @ key' @ [CHR 0x27]) msg)))"
proof (intro conjI impI ballI)
  assume a: "\<forall>key\<in>set [''azure_tenant_id'', ''azure_client_id'', ''azure_client_secret'',
                  ''azure_endpoint'']. \<exists>v. d key = Some (Some v) \<and> v \<noteq> []"
  then have m: "missing_keys d = []"
    by (simp add: missing_keys_Nil truthy_dict_get required_keys_def)
  from a have g: "dict_get d ''azure_tenant_id'' = the (d ''azure_tenant_id'')"
    "dict_get d ''azure_client_id'' = the (d ''azure_client_id'')"
    "dict_get d ''azure_client_secret'' = the (d ''azure_client_secret'')"
    "dict_get d ''azure_endpoint'' = the (d ''azure_endpoint'')"
    by (auto simp: dict_get_def)
  show "let cred = ClientSecretCredential (the (d ''azure_tenant_id''))
                    (the (d ''azure_client_id'')) (the (d ''azure_client_secret''));
           args = \<lparr> azure_endpoint = the (d ''azure_endpoint''),
                    azure_deployment =
                      (case d ''azure_deployment_name'' of None \<Rightarrow> Some ''gpt-4'' | Some v \<Rightarrow> v),
                    api_version =
                      (case d ''azure_api_version'' of
                         None \<Rightarrow> Some ''2024-02-15-preview'' | Some v \<Rightarrow> v),
                    azure_ad_token_provider =
                      (cred, ''https://cognitiveservices.azure.com/.default''),
                    temperature = 0.1, max_tokens = 4000 \<rparr>
       in init k d =
            (case check_credential k cred of
               Some e \<Rightarrow> Inl e
             | None \<Rightarrow>
                (case check_llm k args of
                   Some e \<Rightarrow> Inl e
                 | None \<Rightarrow> Inr \<lparr> secrets = d, credential = cred, llm = args \<rparr>))"
    unfolding Let_def init_valid [OF m, of k] g dict_get_default_def by (rule refl)
next
  fix key
  assume "key \<in> set [''azure_tenant_id'', ''azure_client_id'', ''azure_client_secret'',
                 ''azure_endpoint'']"
    and "d key = None \<or> d key = Some None \<or> d key = Some (Some [])"
  then have "key \<in> set (missing_keys d)"
    by (simp add: set_missing_keys falsy_dict_get required_keys_def)
  then have ne: "missing_keys d \<noteq> []" by auto
  let ?msg = "''Missing required secrets: '' @ repr_list (missing_keys d)"
  have p: "prefix ''Missing required secrets: ['' ?msg"
    by (simp add: repr_list_def)
  have s: "suffix '']'' ?msg"
    unfolding suffix_def repr_list_def by (rule exI [of _ "''Missing required secrets: '' @ ''['' @ join '', '' (map repr_str (missing_keys d))"]) simp
  have named: "sublist ([CHR 0x27] @ key' @ [CHR 0x27]) ?msg"
    if "key' \<in> set [''azure_tenant_id'', ''azure_client_id'', ''azure_client_secret'',
                 ''azure_endpoint'']"
      "d key' = None \<or> d key' = Some None \<or> d key' = Some (Some [])"
    for key'
  proof -
    from that have "key' \<in> set (missing_keys d)"
      by (simp add: set_missing_keys falsy_dict_get required_keys_def)
    then show ?thesis by (rule sublist_quoted)
  qed
  from init_fail [OF ne, of k] p s named
  show "\<exists>msg. init k d = Inl (ValueError msg) \<and>
         prefix ''Missing required secrets: ['' msg \<and> suffix '']'' msg \<and>
         (\<forall>key'\<in>set [''azure_tenant_id'', ''azure_client_id'', ''azure_client_secret'',
                        ''azure_endpoint''].
            (d key' = None \<or> d key' = Some None \<or> d key' = Some (Some [])) \<longrightarrow>
            sublist ([CHR 0x27] @ key' @ [CHR 0x27]) msg)"
    by blast
qed

text \<open>
  A complete mapping is accepted by validation and by an SDK that checks the tenant id; a
  mapping with one key absent, one \<^verbatim>\<open>None\<close> and one empty is rejected with the message
  \<^verbatim>\<open>Missing required secrets: ['azure_client_id', 'azure_client_secret', 'azure_endpoint']\<close>.
\<close>

theorem construction_validates_secrets_witness:
  "init tenant_checking_sdk example_secrets = Inr example_client \<and>
   init tenant_checking_sdk partial_secrets =
     Inl (ValueError (''Missing required secrets: ['' @ [CHR 0x27] @ ''azure_client_id'' @
       [CHR 0x27] @ '', '' @ [CHR 0x27] @ ''azure_client_secret'' @ [CHR 0x27] @ '', '' @
       [CHR 0x27] @ ''azure_endpoint'' @ [CHR 0x27] @ '']'')) \<and>
   (\<exists>msg. init tenant_checking_sdk partial_secrets = Inl (ValueError msg) \<and>
      prefix ''Missing required secrets: ['' msg \<and>
      sublist ([CHR 0x27] @ ''azure_client_id'' @ [CHR 0x27]) msg \<and>
      sublist ([CHR 0x27] @ ''azure_client_secret'' @ [CHR 0x27]) msg \<and>
      sublist ([CHR 0x27] @ ''azure_endpoint'' @ [CHR 0x27]) msg)"
proof -
  note t1 = construction_validates_secrets [of example_secrets tenant_checking_sdk]
  note t2 = construction_validates_secrets [of partial_secrets tenant_checking_sdk]
  from t1 example_secrets_present
  have "let cred = ClientSecretCredential (the (example_secrets ''azure_tenant_id''))
                    (the (example_secrets ''azure_client_id''))
                    (the (example_secrets ''azure_client_secret''));
           args = \<lparr> azure_endpoint = the (example_secrets ''azure_endpoint''),
                    azure_deployment =
                      (case example_secrets ''azure_deployment_name'' of
                         None \<Rightarrow> Some ''gpt-4'' | Some v \<Rightarrow> v),
                    api_version =
                      (case example_secrets ''azure_api_version'' of
                         None \<Rightarrow> Some ''2024-02-15-preview'' | Some v \<Rightarrow> v),
                    azure_ad_token_provider =
                      (cred, ''https://cognitiveservices.azure.com/.default''),
                    temperature = 0.1, max_tokens = 4000 \<rparr>
       in init tenant_checking_sdk example_secrets =
            (case check_credential tenant_checking_sdk cred of
               Some e \<Rightarrow> Inl e
             | None \<Rightarrow>
                (case check_llm tenant_checking_sdk args of
                   Some e \<Rightarrow> Inl e
                 | None \<Rightarrow> Inr \<lparr> secrets = example_secrets, credential = cred, llm = args \<rparr>))"
    by blast
  then have a: "init tenant_checking_sdk example_secrets = Inr example_client"
    by (simp add: Let_def example_secrets_optional example_secrets_values
        tenant_checking_sdk_accepts example_client_def)
  have bad: "partial_secrets ''azure_client_id'' = None"
    "partial_secrets ''azure_client_secret'' = Some None"
    "partial_secrets ''azure_endpoint'' = Some (Some [])"
    by (simp_all add: partial_secrets_def dict_of_def)
  from t2 bad
  have b: "\<exists>msg. init tenant_checking_sdk partial_secrets = Inl (ValueError msg) \<and>
      prefix ''Missing required secrets: ['' msg \<and>
      sublist ([CHR 0x27] @ ''azure_client_id'' @ [CHR 0x27]) msg \<and>
      sublist ([CHR 0x27] @ ''azure_client_secret'' @ [CHR 0x27]) msg \<and>
      sublist ([CHR 0x27] @ ''azure_endpoint'' @ [CHR 0x27]) msg"
    by (simp del: sublist_Cons_right) blast
  from a b init_partial [of tenant_checking_sdk] show ?thesis by blast
qed

text \<open>
  C6: a client constructed from a mapping without the deployment-name entry has the
  deployment \<^verbatim>\<open>gpt-4\<close>, and one constructed from a mapping without the API-version
  entry has the version \<^verbatim>\<open>2024-02-15-preview\<close>; the same holds for construction from
  an environment in which the variable is unset. The missing optional entries raise
  nothing: with the required keys present validation accepts the mapping and the
  completion client is constructed with the two defaults. A missing required key makes
  construction fail with the error of validation.
\<close>

theorem optional_settings_default:
  "(init k d = Inr c \<and> d ''azure_deployment_name'' = None \<longrightarrow>
      azure_deployment (llm c) = Some ''gpt-4'') \<and>
   (init k d = Inr c \<and> d ''azure_api_version'' = None \<longrightarrow>
      api_version (llm c) = Some ''2024-02-15-preview'') \<and>
   (create_client_from_env k env = Inr c' \<and> env ''AZURE_DEPLOYMENT_NAME'' = None \<longrightarrow>
      azure_deployment (llm c') = Some ''gpt-4'') \<and>
   (create_client_from_env k env = Inr c' \<and> env ''AZURE_API_VERSION'' = None \<longrightarrow>
      api_version (llm c') = Some ''2024-02-15-preview'') \<and>
   ((\<forall>key\<in>set [''azure_tenant_id'', ''azure_client_id'', ''azure_client_secret'',
                  ''azure_endpoint'']. \<exists>v. d key = Some (Some v) \<and> v \<noteq> []) \<and>
      d ''azure_deployment_name'' = None \<and> d ''azure_api_version'' = None \<longrightarrow>
      validate_secrets d = Inr () \<and>
      (let cred = ClientSecretCredential (the (d ''azure_tenant_id''))
                    (the (d ''azure_client_id'')) (the (d ''azure_client_secret''));
           args = \<lparr> azure_endpoint = the (d ''azure_endpoint''),
                    azure_deployment = Some ''gpt-4'',
                    api_version = Some ''2024-02-15-preview'',
                    azure_ad_token_provider =
                      (cred, ''https://cognitiveservices.azure.com/.default''),
                    temperature = 0.1, max_tokens = 4000 \<rparr>
       in init k d =
            (case check_credential k cred of
               Some e \<Rightarrow> Inl e
             | None \<Rightarrow>
                (case check_llm k args of
                   Some e \<Rightarrow> Inl e
                 | None \<Rightarrow> Inr \<lparr> secrets = d, credential = cred, llm = args \<rparr>)))) \<and>
   (\<forall>key\<in>set [''azure_tenant_id'', ''azure_client_id'', ''azure_client_secret'',
                 ''azure_endpoint''].
      (d key = None \<or> d key = Some None \<or> d key = Some (Some [])) \<longrightarrow>
      (\<exists>msg. init k d = Inl (ValueError msg) \<and> prefix ''Missing required secrets: ['' msg))"
proof (intro conjI impI ballI)
  assume "init k d = Inr c \<and> d ''azure_deployment_name'' = None"
  then have i: "init k d = Inr c" and e: "d ''azure_deployment_name'' = None" by simp_all
  from llm_of_init [OF i] e show "azure_deployment (llm c) = Some ''gpt-4''"
    by (simp add: dict_get_default_def)
next
  assume "init k d = Inr c \<and> d ''azure_api_version'' = None"
  then have i: "init k d = Inr c" and e: "d ''azure_api_version'' = None" by simp_all
  from llm_of_init [OF i] e show "api_version (llm c) = Some ''2024-02-15-preview''"
    by (simp add: dict_get_default_def)
next
  assume "create_client_from_env k env = Inr c' \<and> env ''AZURE_DEPLOYMENT_NAME'' = None"
  then have "init k (env_secrets env) = Inr c'" and e: "env ''AZURE_DEPLOYMENT_NAME'' = None"
    by (simp_all add: create_client_from_env_def)
  from llm_of_init [OF this(1)] e
  show "azure_deployment (llm c') = Some ''gpt-4''"
    by (simp add: dict_get_default_def env_secrets_optional getenv_default_def)
next
  assume "create_client_from_env k env = Inr c' \<and> env ''AZURE_API_VERSION'' = None"
  then have "init k (env_secrets env) = Inr c'" and e: "env ''AZURE_API_VERSION'' = None"
    by (simp_all add: create_client_from_env_def)
  from llm_of_init [OF this(1)] e
  show "api_version (llm c') = Some ''2024-02-15-preview''"
    by (simp add: dict_get_default_def env_secrets_optional getenv_default_def)
next
  assume a: "(\<forall>key\<in>set [''azure_tenant_id'', ''azure_client_id'', ''azure_client_secret'',
                  ''azure_endpoint'']. \<exists>v. d key = Some (Some v) \<and> v \<noteq> []) \<and>
      d ''azure_deployment_name'' = None \<and> d ''azure_api_version'' = None"
  then have m: "missing_keys d = []"
    by (simp add: missing_keys_Nil truthy_dict_get required_keys_def)
  then show "validate_secrets d = Inr ()" by (simp add: validate_secrets_def)
  from a have g: "dict_get d ''azure_tenant_id'' = the (d ''azure_tenant_id'')"
    "dict_get d ''azure_client_id'' = the (d ''azure_client_id'')"
    "dict_get d ''azure_client_secret'' = the (d ''azure_client_secret'')"
    "dict_get d ''azure_endpoint'' = the (d ''azure_endpoint'')"
    by (auto simp: dict_get_def)
  from a have o: "dict_get_default d ''azure_deployment_name'' ''gpt-4'' = Some ''gpt-4''"
    "dict_get_default d ''azure_api_version'' ''2024-02-15-preview'' = Some ''2024-02-15-preview''"
    by (simp_all add: dict_get_default_def)
  show "let cred = ClientSecretCredential (the (d ''azure_tenant_id''))
                    (the (d ''azure_client_id'')) (the (d ''azure_client_secret''));
           args = \<lparr> azure_endpoint = the (d ''azure_endpoint''),
                    azure_deployment = Some ''gpt-4'',
                    api_version = Some ''2024-02-15-preview'',
                    azure_ad_token_provider =
                      (cred, ''https://cognitiveservices.azure.com/.default''),
                    temperature = 0.1, max_tokens = 4000 \<rparr>
       in init k d =
            (case check_credential k cred of
               Some e \<Rightarrow> Inl e
             | None \<Rightarrow>
                (case check_llm k args of
                   Some e \<Rightarrow> Inl e
                 | None \<Rightarrow> Inr \<lparr> secrets = d, credential = cred, llm = args \<rparr>))"
    unfolding Let_def init_valid [OF m, of k] g o by (rule refl)
next
  fix key
  assume "key \<in> set [''azure_tenant_id'', ''azure_client_id'', ''azure_client_secret'',
                 ''azure_endpoint'']"
    and "d key = None \<or> d key = Some None \<or> d key = Some (Some [])"
  then have "key \<in> set (missing_keys d)"
    by (simp add: set_missing_keys falsy_dict_get required_keys_def)
  then have ne: "missing_keys d \<noteq> []" by auto
  have "prefix ''Missing required secrets: ['' (''Missing required secrets: '' @ repr_list (missing_keys d))"
    by (simp add: repr_list_def)
  with init_fail [OF ne, of k]
  show "\<exists>msg. init k d = Inl (ValueError msg) \<and> prefix ''Missing required secrets: ['' msg"
    by blast
qed

text \<open>The example mapping and the example environment have neither optional setting.\<close>

theorem optional_settings_default_witness:
  "init tenant_checking_sdk example_secrets = Inr example_client \<and>
   azure_deployment (llm example_client) = Some ''gpt-4'' \<and>
   api_version (llm example_client) = Some ''2024-02-15-preview'' \<and>
   (\<exists>c. create_client_from_env tenant_checking_sdk example_env = Inr c \<and>
      azure_deployment (llm c) = Some ''gpt-4'' \<and>
      api_version (llm c) = Some ''2024-02-15-preview'') \<and>
   (\<exists>msg. init tenant_checking_sdk partial_secrets = Inl (ValueError msg) \<and>
      prefix ''Missing required secrets: ['' msg)"
proof -
  have env: "example_env ''AZURE_DEPLOYMENT_NAME'' = None" "example_env ''AZURE_API_VERSION'' = None"
    by (simp_all add: example_env_def)
  have bad: "partial_secrets ''azure_client_id'' = None"
    by (simp add: partial_secrets_def dict_of_def)
  note t1 = optional_settings_default [of tenant_checking_sdk example_secrets example_client
      example_env "example_client\<lparr>secrets := env_secrets example_env\<rparr>"]
  note t2 = optional_settings_default [of tenant_checking_sdk partial_secrets example_client
      example_env "example_client\<lparr>secrets := env_secrets example_env\<rparr>"]
  from t1 example_secrets_present example_secrets_optional
  have "let cred = ClientSecretCredential (the (example_secrets ''azure_tenant_id''))
                    (the (example_secrets ''azure_client_id''))
                    (the (example_secrets ''azure_client_secret''));
           args = \<lparr> azure_endpoint = the (example_secrets ''azure_endpoint''),
                    azure_deployment = Some ''gpt-4'',
                    api_version = Some ''2024-02-15-preview'',
                    azure_ad_token_provider =
                      (cred, ''https://cognitiveservices.azure.com/.default''),
                    temperature = 0.1, max_tokens = 4000 \<rparr>
       in init tenant_checking_sdk example_secrets =
            (case check_credential tenant_checking_sdk cred of
               Some e \<Rightarrow> Inl e
             | None \<Rightarrow>
                (case check_llm tenant_checking_sdk args of
                   Some e \<Rightarrow> Inl e
                 | None \<Rightarrow> Inr \<lparr> secrets = example_secrets, credential = cred, llm = args \<rparr>))"
    by blast
  then have a: "init tenant_checking_sdk example_secrets = Inr example_client"
    by (simp add: Let_def example_secrets_values tenant_checking_sdk_accepts example_client_def)
  from t1 a example_secrets_optional
  have b: "azure_deployment (llm example_client) = Some ''gpt-4''"
    "api_version (llm example_client) = Some ''2024-02-15-preview''"
    by blast+
  from t1 env init_example_env
  have c: "\<exists>c. create_client_from_env tenant_checking_sdk example_env = Inr c \<and>
      azure_deployment (llm c) = Some ''gpt-4'' \<and>
      api_version (llm c) = Some ''2024-02-15-preview''"
    by blast
  from t2 bad
  have d: "\<exists>msg. init tenant_checking_sdk partial_secrets = Inl (ValueError msg) \<and>
      prefix ''Missing required secrets: ['' msg"
    by simp
  from a b c d show ?thesis by blast
qed

text \<open>
  C7: every client that construction returns (from a mapping or from the environment,
  with any SDK) has temperature 0.1 and 4000 maximum tokens, and so has every request
  that a call on such a client sends, whatever the message, the variables and the system
  message.
\<close>

theorem completion_parameters_fixed:
  "(init k d = Inr c \<longrightarrow> temperature (llm c) = 0.1 \<and> max_tokens (llm c) = 4000) \<and>
   (create_client_from_env k env = Inr c \<longrightarrow>
      temperature (llm c) = 0.1 \<and> max_tokens (llm c) = 4000) \<and>
   (create_client_from_dict k d = Inr c \<longrightarrow>
      temperature (llm c) = 0.1 \<and> max_tokens (llm c) = 4000) \<and>
   (init k d = Inr (self w) \<and> sent (snd (chat m s w)) = sent w @ [req] \<longrightarrow>
      temperature (fst req) = 0.1 \<and> max_tokens (fst req) = 4000) \<and>
   (init k d = Inr (self w) \<and> sent (snd (chat_with_template t vars s w)) = sent w @ [req] \<longrightarrow>
      temperature (fst req) = 0.1 \<and> max_tokens (fst req) = 4000)"
proof -
  have built: "temperature (llm x) = 0.1 \<and> max_tokens (llm x) = 4000" if "init k e = Inr x" for e x
    using llm_of_init [OF that] by simp
  have on_request: "temperature (fst req) = 0.1 \<and> max_tokens (fst req) = 4000"
    if "init k d = Inr (self w)" "sent (snd (chat_with_template x vs s w)) = sent w @ [req]"
    for x vs
    using built [OF that(1)] chat_with_template_request [OF that(2)] by simp
  show ?thesis
    using built [of d c] built [of "env_secrets env" c]
      on_request [of m Map.empty] on_request [of t vars]
    unfolding chat_is_template_call create_client_from_env_def create_client_from_dict_def
    by blast
qed

text \<open>The example client, and the request of a call on it.\<close>

theorem completion_parameters_fixed_witness:
  "init tenant_checking_sdk example_secrets = Inr example_client \<and>
   temperature (llm example_client) = 0.1 \<and> max_tokens (llm example_client) = 4000 \<and>
   sent (snd (chat ''Hi'' None example_world)) = [(llm example_client, [HumanMessage ''Hi''])]"
proof -
  have a: "init tenant_checking_sdk example_secrets = Inr (self example_world)"
    by (simp add: init_example example_world_def)
  have b: "sent (snd (chat ''Hi'' None example_world)) =
      sent example_world @ [(llm example_client, [HumanMessage ''Hi''])]"
    by (simp add: chat_hi example_world_def)
  from completion_parameters_fixed
    [of tenant_checking_sdk example_secrets example_client example_env example_world "''Hi''"
       None "(llm example_client, [HumanMessage ''Hi''])"] a b init_example
  show ?thesis by (simp add: example_world_def)
qed

text \<open>
  C10: the error of validation, and so of construction, is
  \<^verbatim>\<open>Missing required secrets: [...]\<close> with the names of the required keys that are
  absent, \<^verbatim>\<open>None\<close> or empty, each between single quotes, separated by a comma and a
  space, in the order tenant id, client id, client secret, endpoint. It is a function of
  which of the four keys are missing, and it is the same for two dictionary displays
  with the same entries in a different order.
\<close>

theorem missing_keys_reported_in_fixed_order:
  "(let ks = filter (\<lambda>key. d key = None \<or> d key = Some None \<or> d key = Some (Some []))
               [''azure_tenant_id'', ''azure_client_id'', ''azure_client_secret'',
                ''azure_endpoint''];
        msg = ''Missing required secrets: ['' @
               (case ks of
                  [] \<Rightarrow> []
                | x # r \<Rightarrow> [CHR 0x27] @ x @ [CHR 0x27] @
                    concat (map (\<lambda>y. '', '' @ [CHR 0x27] @ y @ [CHR 0x27]) r)) @ '']''
    in (ks \<noteq> [] \<longrightarrow>
          validate_secrets d = Inl (ValueError msg) \<and> init k d = Inl (ValueError msg)) \<and>
       (ks = [] \<longrightarrow> validate_secrets d = Inr ())) \<and>
   (distinct (map fst es) \<and> mset es' = mset es \<longrightarrow>
      validate_secrets (dict_of es') = validate_secrets (dict_of es) \<and>
      init k (dict_of es') = init k (dict_of es))"
proof (intro conjI impI)
  let ?ks = "filter (\<lambda>key. d key = None \<or> d key = Some None \<or> d key = Some (Some []))
               [''azure_tenant_id'', ''azure_client_id'', ''azure_client_secret'',
                ''azure_endpoint'']"
  have ks: "missing_keys d = ?ks" by (rule missing_keys_explicit)
  have v: "validate_secrets d =
      (if missing_keys d = [] then Inr ()
       else Inl (ValueError (''Missing required secrets: '' @ repr_list (missing_keys d))))"
    by (simp add: validate_secrets_def)
  have i: "missing_keys d \<noteq> [] \<longrightarrow>
      init k d = Inl (ValueError (''Missing required secrets: '' @ repr_list (missing_keys d)))"
    using init_fail [of d k] by blast
  show "let ks = ?ks;
        msg = ''Missing required secrets: ['' @
               (case ks of
                  [] \<Rightarrow> []
                | x # r \<Rightarrow> [CHR 0x27] @ x @ [CHR 0x27] @
                    concat (map (\<lambda>y. '', '' @ [CHR 0x27] @ y @ [CHR 0x27]) r)) @ '']''
    in (ks \<noteq> [] \<longrightarrow>
          validate_secrets d = Inl (ValueError msg) \<and> init k d = Inl (ValueError msg)) \<and>
       (ks = [] \<longrightarrow> validate_secrets d = Inr ())"
    unfolding Let_def ks [symmetric] using v i by (simp add: repr_list_explicit)
next
  assume "distinct (map fst es) \<and> mset es' = mset es"
  then have "dict_of es' = dict_of es" by (simp add: dict_of_permuted)
  then show "validate_secrets (dict_of es') = validate_secrets (dict_of es)"
    and "init k (dict_of es') = init k (dict_of es)" by simp_all
qed

text \<open>
  The empty mapping gives all four names in the fixed order; a display that lists the
  client secret before the tenant id and the endpoint gives the three missing names in
  the fixed order, and so does the same display reversed.
\<close>

theorem missing_keys_reported_in_fixed_order_witness:
  "validate_secrets Map.empty =
     Inl (ValueError (''Missing required secrets: ['' @ [CHR 0x27] @ ''azure_tenant_id'' @
       [CHR 0x27] @ '', '' @ [CHR 0x27] @ ''azure_client_id'' @ [CHR 0x27] @ '', '' @
       [CHR 0x27] @ ''azure_client_secret'' @ [CHR 0x27] @ '', '' @
       [CHR 0x27] @ ''azure_endpoint'' @ [CHR 0x27] @ '']'')) \<and>
   init tenant_checking_sdk (dict_of shuffled_secrets) =
     Inl (ValueError (''Missing required secrets: ['' @ [CHR 0x27] @ ''azure_client_id'' @
       [CHR 0x27] @ '', '' @ [CHR 0x27] @ ''azure_client_secret'' @ [CHR 0x27] @ '', '' @
       [CHR 0x27] @ ''azure_endpoint'' @ [CHR 0x27] @ '']'')) \<and>
   init tenant_checking_sdk (dict_of (rev shuffled_secrets)) =
     init tenant_checking_sdk (dict_of shuffled_secrets)"
proof -
  have dist: "distinct (map fst shuffled_secrets)"
    by (simp add: shuffled_secrets_def)
  have vals: "dict_of shuffled_secrets ''azure_tenant_id'' = Some (Some ''tenant'')"
    "dict_of shuffled_secrets ''azure_client_id'' = None"
    "dict_of shuffled_secrets ''azure_client_secret'' = Some None"
    "dict_of shuffled_secrets ''azure_endpoint'' = Some (Some [])"
    by (simp_all add: shuffled_secrets_def dict_of_def)
  from missing_keys_reported_in_fixed_order
    [of Map.empty tenant_checking_sdk shuffled_secrets "rev shuffled_secrets"]
  have a: "validate_secrets Map.empty =
     Inl (ValueError (''Missing required secrets: ['' @ [CHR 0x27] @ ''azure_tenant_id'' @
       [CHR 0x27] @ '', '' @ [CHR 0x27] @ ''azure_client_id'' @ [CHR 0x27] @ '', '' @
       [CHR 0x27] @ ''azure_client_secret'' @ [CHR 0x27] @ '', '' @
       [CHR 0x27] @ ''azure_endpoint'' @ [CHR 0x27] @ '']''))"
    by (simp add: Let_def)
  note t = missing_keys_reported_in_fixed_order
    [of "dict_of shuffled_secrets" tenant_checking_sdk shuffled_secrets "rev shuffled_secrets"]
  from t have b: "init tenant_checking_sdk (dict_of shuffled_secrets) =
     Inl (ValueError (''Missing required secrets: ['' @ [CHR 0x27] @ ''azure_client_id'' @
       [CHR 0x27] @ '', '' @ [CHR 0x27] @ ''azure_client_secret'' @ [CHR 0x27] @ '', '' @
       [CHR 0x27] @ ''azure_endpoint'' @ [CHR 0x27] @ '']''))"
    by (simp add: Let_def vals)
  from t dist have c: "init tenant_checking_sdk (dict_of (rev shuffled_secrets)) =
     init tenant_checking_sdk (dict_of shuffled_secrets)"
    by simp
  from a b c show ?thesis by blast
qed

end
